theory Spec2Isabelle
  imports Main "HOL-Library.Word"
begin

section \<open>aid::core::Result\<close>

text \<open>
  \<^verbatim>\<open>include/aid/core/result.hpp\<close>. A \<^verbatim>\<open>Result<Ok, Err>\<close> holds two private members,
  \<^verbatim>\<open>std::optional<Ok> Oke\<close> and \<^verbatim>\<open>std::optional<Err> Erre\<close>. Member functions that
  assign to a member return the instance after the call next to their value.

  Every \<^verbatim>\<open>std::clog << message << std::endl; std::exit(1);\<close> of the source is the value
  \<open>Exit message\<close>: the process ends with status 1 after that line was logged.
  Dereferencing an empty optional (\<^verbatim>\<open>*Erre\<close> without a preceding \<^verbatim>\<open>has_value()\<close>
  test) is undefined behaviour in C++ and is the value \<open>Undefined\<close>.
\<close>

datatype fatal = Exit string | Undefined

record ('ok, 'err) Result =
  Oke :: "'ok option"
  Erre :: "'err option"

text \<open>The constructor \<^verbatim>\<open>Result(std::optional<Ok> ok, std::optional<Err> err)\<close>, lines 42-56.\<close>

definition Result_ctor :: "'ok option \<Rightarrow> 'err option \<Rightarrow> fatal + ('ok, 'err) Result" where
  "Result_ctor ok_arg err_arg =
     (let has_ok = (ok_arg \<noteq> None); has_err = (err_arg \<noteq> None) in
      if has_ok \<and> has_err then
        Inl (Exit ''Trying to construct a Result with both an Ok and Err value.'')
      else if \<not> has_ok \<and> \<not> has_err then
        Inl (Exit ''Trying to construct a Result without an Ok or an Err value.'')
      else Inr \<lparr>Oke = ok_arg, Erre = err_arg\<rparr>)"

text \<open>The free functions \<^verbatim>\<open>ok\<close> and \<^verbatim>\<open>err\<close>, lines 443-461.\<close>

definition ok :: "'ok \<Rightarrow> fatal + ('ok, 'err) Result" where
  "ok v = Result_ctor (Some v) None"

definition err :: "'err \<Rightarrow> fatal + ('ok, 'err) Result" where
  "err v = Result_ctor None (Some v)"

text \<open>\<^verbatim>\<open>isOk\<close> and \<^verbatim>\<open>isErr\<close>, lines 99-110.\<close>

definition isOk :: "('ok, 'err) Result \<Rightarrow> bool" where
  "isOk r = (Oke r \<noteq> None)"

definition isErr :: "('ok, 'err) Result \<Rightarrow> bool" where
  "isErr r = (Erre r \<noteq> None)"

text \<open>\<^verbatim>\<open>operator==\<close>, lines 85-88: both optionals are compared.\<close>

definition operator_eq :: "('ok, 'err) Result \<Rightarrow> ('ok, 'err) Result \<Rightarrow> bool" where
  "operator_eq self rhs = (Oke self = Oke rhs \<and> Erre self = Erre rhs)"

text \<open>
  \<^verbatim>\<open>operator!=\<close>, lines 90-93. Its body is \<^verbatim>\<open>return rhs != *this;\<close>: a call of the same
  member with the operands exchanged. The call need not return, so the result is an
  option and \<open>None\<close> is a call that never returns.
\<close>

partial_function (option) operator_ne ::
  "('ok, 'err) Result \<Rightarrow> ('ok, 'err) Result \<Rightarrow> bool option" where
  "operator_ne self rhs = operator_ne rhs self"

subsection \<open>Callables\<close>

text \<open>
  The combinators take a callable \<^verbatim>\<open>Func &&F\<close>. A C++ callable may have effects of its
  own (a capturing lambda, a function that logs or exits), so a callable is a function of
  its argument and of the state \<open>'w\<close> of everything outside the Result; it returns its
  value, or the exit it ran into, with the state it leaves. A combinator that does not
  call \<open>F\<close> hands the state back as it got it.
\<close>

type_synonym ('a, 'b, 'w) callable = "'a \<Rightarrow> 'w \<Rightarrow> (fatal + 'b) \<times> 'w"

text \<open>
  \<^verbatim>\<open>map\<close>, lines 125-139. The instance after the call is not part of the result: the
  source documents it as undefined after a combinator, and no caller reads it.
\<close>

definition map_res ::
  "('ok, 'err) Result \<Rightarrow> ('ok, 'u, 'w) callable \<Rightarrow> 'w \<Rightarrow> (fatal + ('u, 'err) Result) \<times> 'w" where
  "map_res r F w =
     (case Oke r of
        Some v \<Rightarrow>
          (case F v w of
             (Inl x, w') \<Rightarrow> (Inl x, w')
           | (Inr u, w') \<Rightarrow> (Result_ctor (Some u) None, w'))
      | None \<Rightarrow>
          (case Erre r of
             Some e \<Rightarrow> (Result_ctor None (Some e), w)
           | None \<Rightarrow>
               (Inl (Exit ''Trying to apply a map function to a Result that has no value and no error.''), w)))"

text \<open>
  \<^verbatim>\<open>mapOrElse\<close>, lines 204-216. There is no \<^verbatim>\<open>isErr()\<close> test before \<^verbatim>\<open>*Erre\<close>: with
  both optionals empty the dereference is undefined.
\<close>

definition mapOrElse ::
  "('ok, 'err) Result \<Rightarrow> ('err, 'u, 'w) callable \<Rightarrow> ('ok, 'u, 'w) callable \<Rightarrow> 'w
     \<Rightarrow> (fatal + 'u) \<times> 'w" where
  "mapOrElse r Df F w =
     (case Oke r of
        Some v \<Rightarrow> F v w
      | None \<Rightarrow> (case Erre r of Some e \<Rightarrow> Df e w | None \<Rightarrow> (Inl Undefined, w)))"

text \<open>
  \<^verbatim>\<open>andThen\<close>, lines 246-253. The failure branch returns \<^verbatim>\<open>err<Ok, R::ErrType>\<close>, a
  \<^verbatim>\<open>Result<Ok, ...>\<close>, as the function's \<^verbatim>\<open>R\<close>: the member only compiles for an \<open>F\<close>
  that returns a Result of the same \<^verbatim>\<open>Ok\<close> type, which is the type it has here.
\<close>

definition andThen ::
  "('ok, 'err) Result \<Rightarrow> ('ok, ('ok, 'err) Result, 'w) callable \<Rightarrow> 'w
     \<Rightarrow> (fatal + ('ok, 'err) Result) \<times> 'w" where
  "andThen r F w =
     (case Oke r of
        Some v \<Rightarrow> F v w
      | None \<Rightarrow> (case Erre r of Some e \<Rightarrow> (err e, w) | None \<Rightarrow> (Inl Undefined, w)))"

subsection \<open>Accessors\<close>

text \<open>\<^verbatim>\<open>value\<close>, lines 322-333: the value, and the instance with \<^verbatim>\<open>Oke\<close> reset.\<close>

definition value_res :: "('ok, 'err) Result \<Rightarrow> fatal + ('ok \<times> ('ok, 'err) Result)" where
  "value_res r =
     (case Oke r of
        None \<Rightarrow> Inl (Exit ''Trying to get the value of a result which doesn't have a value'')
      | Some tmp \<Rightarrow> Inr (tmp, r\<lparr>Oke := None\<rparr>))"

text \<open>\<^verbatim>\<open>valueOr\<close>, lines 342-352. It has no exit.\<close>

definition valueOr :: "('ok, 'err) Result \<Rightarrow> 'ok \<Rightarrow> 'ok \<times> ('ok, 'err) Result" where
  "valueOr r Default =
     (case Oke r of
        None \<Rightarrow> (Default, r)
      | Some tmp \<Rightarrow> (tmp, r\<lparr>Oke := None\<rparr>))"

text \<open>
  \<^verbatim>\<open>expectErr\<close>, lines 373-380. The declared return type is \<^verbatim>\<open>Ok\<close>, so
  \<^verbatim>\<open>return std::move(*Erre);\<close> initialises an \<^verbatim>\<open>Ok\<close> from an \<^verbatim>\<open>Err&&\<close>: \<open>conv\<close> is that
  initialisation (the identity when both types are the same), and \<open>moved\<close> is what it
  leaves in the object it read (the identity for a scalar such as \<^verbatim>\<open>int\<close>). \<^verbatim>\<open>Erre\<close> is
  not assigned: the optional stays engaged.
\<close>

definition expectErr ::
  "('err \<Rightarrow> 'ok) \<Rightarrow> ('err \<Rightarrow> 'err) \<Rightarrow> ('ok, 'err) Result \<Rightarrow> string
     \<Rightarrow> fatal + ('ok \<times> ('ok, 'err) Result)" where
  "expectErr conv moved r msg =
     (case Erre r of
        Some e \<Rightarrow> Inr (conv e, r\<lparr>Erre := Some (moved e)\<rparr>)
      | None \<Rightarrow> Inl (Exit msg))"

text \<open>The member \<^verbatim>\<open>err\<close>, lines 389-400: the error, and the instance with \<^verbatim>\<open>Erre\<close> reset.\<close>

definition err_res :: "('ok, 'err) Result \<Rightarrow> fatal + ('err \<times> ('ok, 'err) Result)" where
  "err_res r =
     (case Erre r of
        None \<Rightarrow> Inl (Exit ''Trying to get the error of a result which doesn't have an error'')
      | Some tmp \<Rightarrow> Inr (tmp, r\<lparr>Erre := None\<rparr>))"

subsection \<open>The callables of the test suite\<close>

text \<open>
  \<^verbatim>\<open>tests/src/result.cpp\<close>, lines 93-98. \<^verbatim>\<open>int\<close> is a 32-bit word read as two's
  complement; a signed product out of range is undefined in C++.
\<close>

definition sq :: "(32 word, (32 word, 32 word) Result, 'w) callable" where
  "sq x w =
     (if sint x * sint x \<le> 2147483647 then (ok (x * x), w) else (Inl Undefined, w))"

definition er :: "(32 word, (32 word, 32 word) Result, 'w) callable" where
  "er x w = (let y = x in (err y, w))"

subsection \<open>Callers\<close>

text \<open>
  A chained call \<^verbatim>\<open>a.f(x).g(y)\<close>: the member \<open>g\<close> runs on the temporary that \<open>a.f(x)\<close>
  returned, and not at all when that call exited.
\<close>

definition chain ::
  "(fatal + 'a) \<times> 'w \<Rightarrow> ('a \<Rightarrow> 'w \<Rightarrow> (fatal + 'b) \<times> 'w) \<Rightarrow> (fatal + 'b) \<times> 'w" where
  "chain p member = (case p of (Inl x, w) \<Rightarrow> (Inl x, w) | (Inr a, w) \<Rightarrow> member a w)"

text \<open>
  A callable that computes the pure function \<open>f\<close> and appends \<open>tag x\<close> to a log each time
  it is invoked with \<open>x\<close>: the log of a run lists the invocations in order.
\<close>

definition logged :: "('a \<Rightarrow> 'l) \<Rightarrow> ('a \<Rightarrow> 'b) \<Rightarrow> ('a, 'b, 'l list) callable" where
  "logged tag f x log = (Inr (f x), log @ [tag x])"

section \<open>aid::mpsc::MpscQueue\<close>

text \<open>
  \<^verbatim>\<open>include/aid/mpsc/mpsc_error.hpp\<close> and \<^verbatim>\<open>include/aid/mpsc/mpsc_queue.hpp\<close>. The queue
  holds a \<^verbatim>\<open>std::queue<T> Q\<close>, its front at the head of the list, and a mutex that both
  members hold from entry to return: calls never overlap, and a run of the queue is the
  sequence of its calls in the order they took the lock.
\<close>

datatype MpscError = Sender | Receiver | EmptyQueue

record 'a MpscQueue =
  Q :: "'a list"

text \<open>A default-constructed queue.\<close>

definition MpscQueue_new :: "'a MpscQueue" where
  "MpscQueue_new = \<lparr>Q = []\<rparr>"

definition push :: "'a MpscQueue \<Rightarrow> 'a \<Rightarrow> 'a MpscQueue" where
  "push q v = q\<lparr>Q := Q q @ [v]\<rparr>"

definition pop :: "'a MpscQueue \<Rightarrow> (fatal + ('a, MpscError) Result) \<times> 'a MpscQueue" where
  "pop q =
     (case Q q of
        owner # rest \<Rightarrow> (ok owner, q\<lparr>Q := rest\<rparr>)
      | [] \<Rightarrow> (err EmptyQueue, q))"

text \<open>A caller that pushes the values of a list in order, and one that pops \<open>n\<close> times.\<close>

fun push_all :: "'a MpscQueue \<Rightarrow> 'a list \<Rightarrow> 'a MpscQueue" where
  "push_all q [] = q"
| "push_all q (v # vs) = push_all (push q v) vs"

fun pop_n :: "nat \<Rightarrow> 'a MpscQueue \<Rightarrow> (fatal + ('a, MpscError) Result) list \<times> 'a MpscQueue" where
  "pop_n 0 q = ([], q)"
| "pop_n (Suc n) q =
     (case pop q of (r, q') \<Rightarrow> (case pop_n n q' of (rs, q'') \<Rightarrow> (r # rs, q'')))"

section \<open>Construction\<close>

lemma ok_eq: "ok v = Inr \<lparr>Oke = Some v, Erre = None\<rparr>"
  by (simp add: ok_def Result_ctor_def)

lemma err_eq: "err e = Inr \<lparr>Oke = None, Erre = Some e\<rparr>"
  by (simp add: err_def Result_ctor_def)

text \<open>
  Whatever the constructor returns has exactly one optional engaged. The members only
  ever reset an optional, so no Result has both engaged: one that holds an error has
  \<open>Oke = None\<close>, and one that holds a value has \<open>Erre = None\<close>.
\<close>

lemma Result_ctor_valid: "Result_ctor a b = Inr r \<Longrightarrow> isOk r \<noteq> isErr r"
  by (auto simp: Result_ctor_def Let_def isOk_def isErr_def split: if_splits)

text \<open>
  C1. A Result made by \<open>ok\<close> or by \<open>err\<close> exists (the constructor does not exit) and
  satisfies \<open>isOk \<noteq> isErr\<close>; the constructor called with both optionals engaged, or with
  both empty, logs its diagnostic and exits instead of returning an object.
\<close>

theorem Result_exclusivity:
  "(\<exists>r :: ('ok, 'err) Result. ok v = Inr r \<and> isOk r \<noteq> isErr r)
   \<and> (\<exists>r :: ('ok, 'err) Result. err e = Inr r \<and> isOk r \<noteq> isErr r)
   \<and> (Result_ctor (Some v) (Some e) :: fatal + ('ok, 'err) Result) =
       Inl (Exit ''Trying to construct a Result with both an Ok and Err value.'')
   \<and> (Result_ctor None None :: fatal + ('ok, 'err) Result) =
       Inl (Exit ''Trying to construct a Result without an Ok or an Err value.'')"
  by (simp add: ok_eq err_eq isOk_def isErr_def Result_ctor_def)

section \<open>The queue\<close>

lemma push_all_Q: "Q (push_all q vs) = Q q @ vs"
  by (induction q vs rule: push_all.induct) (simp_all add: push_def)

text \<open>
  \<open>n\<close> pops on a queue: the first \<open>n\<close> elements from the front, each in an \<open>ok\<close>, then
  \<open>err EmptyQueue\<close> for every pop beyond the last element; the rest stays queued.
\<close>

lemma pop_n_contents:
  "pop_n n q =
     (map ok (take n (Q q)) @ replicate (n - length (Q q)) (err EmptyQueue),
      \<lparr>Q = drop n (Q q)\<rparr>)"
proof (induction n arbitrary: q)
  case 0
  show ?case by simp
next
  case (Suc n)
  show ?case
  proof (cases "Q q")
    case Nil
    then have "pop q = (err EmptyQueue, q)"
      by (simp add: pop_def)
    with Nil Suc [of q] show ?thesis
      by (simp add: replicate_append_same)
  next
    case (Cons x xs)
    then have "pop q = (ok x, q\<lparr>Q := xs\<rparr>)"
      by (simp add: pop_def)
    with Cons Suc [of "q\<lparr>Q := xs\<rparr>"] show ?thesis
      by simp
  qed
qed

text \<open>
  C2. Pushing the values \<open>vs\<close> in order onto a queue and then popping \<open>n\<close> times returns
  the first \<open>n\<close> of the queued values (what the queue held before, then \<open>vs\<close>) in the
  order they were pushed, each as \<open>ok\<close> of the value, and leaves exactly the values not yet
  returned in the queue, in order: nothing is returned twice and nothing is dropped. A pop
  beyond the last value returns \<open>err EmptyQueue\<close>. On a new queue (\<open>Q q = []\<close>) the pops
  return exactly \<open>vs\<close>.
\<close>

theorem MpscQueue_fifo:
  "pop_n n (push_all q vs) =
     (map ok (take n (Q q @ vs)) @ replicate (n - length (Q q @ vs)) (err EmptyQueue),
      \<lparr>Q = drop n (Q q @ vs)\<rparr>)"
  by (simp only: pop_n_contents push_all_Q)

text \<open>
  C3. On a new queue a pop returns the Result whose error is \<open>EmptyQueue\<close> and leaves the
  queue as it was; so does every one of \<open>n\<close> pops in a row. \<open>pop\<close> is a total function
  with no loop and no wait: it returns at once.
\<close>

theorem MpscQueue_empty_pop:
  "pop MpscQueue_new = (Inr \<lparr>Oke = None, Erre = Some EmptyQueue\<rparr>, MpscQueue_new)
   \<and> pop_n n MpscQueue_new =
       (replicate n (Inr \<lparr>Oke = None, Erre = Some EmptyQueue\<rparr>), MpscQueue_new)"
  by (simp add: pop_n_contents MpscQueue_new_def pop_def err_eq)

section \<open>Chaining\<close>

lemma sq_2: "sq 2 w = (Inr \<lparr>Oke = Some 4, Erre = None\<rparr>, w)"
  by (simp add: sq_def ok_eq)

lemma sq_4: "sq 4 w = (Inr \<lparr>Oke = Some 16, Erre = None\<rparr>, w)"
  by (simp add: sq_def ok_eq)

lemma er_eq: "er x w = (Inr \<lparr>Oke = None, Erre = Some x\<rparr>, w)"
  by (simp add: er_def err_eq)

text \<open>
  C4. The three chains of the test suite: \<^verbatim>\<open>ok(2).andThen(sq).andThen(sq)\<close> compares equal
  (\<^verbatim>\<open>operator==\<close>) to \<^verbatim>\<open>ok(16)\<close>, \<^verbatim>\<open>ok(2).andThen(er).andThen(sq)\<close> to \<^verbatim>\<open>err(2)\<close>, and
  \<^verbatim>\<open>err(3).andThen(sq).andThen(sq)\<close> to \<^verbatim>\<open>err(3)\<close>. In general, on a Result that holds a
  value \<open>v\<close>, \<open>andThen\<close> returns what \<open>F v\<close> returns, and on a Result that holds the error
  \<open>e\<close> it returns a Result holding \<open>e\<close> without running \<open>F\<close>.
\<close>

theorem andThen_short_circuit:
  "(\<exists>a b. chain (chain (ok 2, w) (\<lambda>r. andThen r sq)) (\<lambda>r. andThen r sq) = (Inr a, w)
          \<and> ok 16 = Inr b \<and> operator_eq a b)
   \<and> (\<exists>a b. chain (chain (ok 2, w) (\<lambda>r. andThen r er)) (\<lambda>r. andThen r sq) = (Inr a, w)
          \<and> err 2 = Inr b \<and> operator_eq a b)
   \<and> (\<exists>a b. chain (chain (err 3, w) (\<lambda>r. andThen r sq)) (\<lambda>r. andThen r sq) = (Inr a, w)
          \<and> err 3 = Inr b \<and> operator_eq a b)
   \<and> (Oke r = Some v \<longrightarrow> andThen r F w = F v w)
   \<and> (Oke r = None \<and> Erre r = Some e \<longrightarrow>
        andThen r F w = (Inr \<lparr>Oke = None, Erre = Some e\<rparr>, w))"
proof -
  have c1: "chain (chain (ok 2, w) (\<lambda>r. andThen r sq)) (\<lambda>r. andThen r sq)
              = (Inr \<lparr>Oke = Some 16, Erre = None\<rparr>, w)"
    by (simp add: chain_def ok_eq andThen_def sq_2 sq_4)
  have c2: "chain (chain (ok 2, w) (\<lambda>r. andThen r er)) (\<lambda>r. andThen r sq)
              = (Inr \<lparr>Oke = None, Erre = Some 2\<rparr>, w)"
    by (simp add: chain_def ok_eq andThen_def er_eq err_eq)
  have c3: "chain (chain (err 3, w) (\<lambda>r. andThen r sq)) (\<lambda>r. andThen r sq)
              = (Inr \<lparr>Oke = None, Erre = Some 3\<rparr>, w)"
    by (simp add: chain_def andThen_def err_eq)
  have g: "(Oke r = Some v \<longrightarrow> andThen r F w = F v w)
           \<and> (Oke r = None \<and> Erre r = Some e \<longrightarrow>
                andThen r F w = (Inr \<lparr>Oke = None, Erre = Some e\<rparr>, w))"
    by (simp add: andThen_def err_eq)
  show ?thesis
    unfolding c1 c2 c3
    using g by (simp add: ok_eq err_eq operator_eq_def)
qed

theorem andThen_short_circuit_witness:
  "andThen \<lparr>Oke = Some 2, Erre = None\<rparr> sq () = sq 2 ()
   \<and> andThen \<lparr>Oke = None, Erre = Some 3\<rparr> sq () = (Inr \<lparr>Oke = None, Erre = Some 3\<rparr>, ())"
  using andThen_short_circuit
      [where w = "()" and r = "\<lparr>Oke = Some 2, Erre = None\<rparr>" and v = 2 and F = sq]
    andThen_short_circuit
      [where w = "()" and r = "\<lparr>Oke = None, Erre = Some 3\<rparr>" and e = 3 and F = sq]
  by simp

section \<open>Extraction\<close>

text \<open>
  \<^verbatim>\<open>Result<unsigned char, int>\<close>: \<open>expectErr\<close> on the error 300 returns an
  \<^verbatim>\<open>unsigned char\<close>, 44.
\<close>

lemma expectErr_returns_Ok_type:
  "expectErr (ucast :: 32 word \<Rightarrow> 8 word) id \<lparr>Oke = None, Erre = Some 300\<rparr> ''not printed''
     = Inr (44, \<lparr>Oke = None, Erre = Some 300\<rparr>)"
  by (simp add: expectErr_def)

text \<open>
  C5, as stated, fails on \<^verbatim>\<open>err<int, int>(3)\<close>, the Result of the test suite:
  \<open>expectErr\<close> returns 3 and leaves the instance as it was, \<open>isErr\<close> still true, where the
  member \<open>err\<close> returns 3 and leaves \<open>Erre\<close> empty.
\<close>

theorem expectErr_keeps_slot_counterexample:
  "expectErr id id \<lparr>Oke = None :: 32 word option, Erre = Some (3 :: 32 word)\<rparr> ''not printed''
     \<noteq> err_res \<lparr>Oke = None :: 32 word option, Erre = Some (3 :: 32 word)\<rparr>
   \<and> expectErr id id \<lparr>Oke = None :: 32 word option, Erre = Some (3 :: 32 word)\<rparr> ''not printed''
     = Inr (3, \<lparr>Oke = None, Erre = Some 3\<rparr>)
   \<and> err_res \<lparr>Oke = None :: 32 word option, Erre = Some (3 :: 32 word)\<rparr>
     = Inr (3, \<lparr>Oke = None, Erre = None\<rparr>)
   \<and> isErr \<lparr>Oke = None :: 32 word option, Erre = Some (3 :: 32 word)\<rparr>
   \<and> \<not> isErr \<lparr>Oke = None :: 32 word option, Erre = None :: 32 word option\<rparr>"
  by (simp add: expectErr_def err_res_def isErr_def)

text \<open>
  C5, amended. On a Result that holds an error \<open>e\<close>, \<open>expectErr\<close> returns (it does not
  exit) and does not reset \<open>Erre\<close>: the optional stays engaged, holding what the move left of
  \<open>e\<close>, so \<open>isErr\<close> is still true. Where \<^verbatim>\<open>Ok\<close> and \<^verbatim>\<open>Err\<close> are the same type, the value
  returned is \<open>e\<close>, and for a scalar type the instance is unchanged. On a Result that holds
  no error, \<open>expectErr\<close> logs \<open>msg\<close> and exits.
\<close>

theorem expectErr_behaviour:
  fixes r :: "('ok, 'err) Result" and s :: "('a, 'a) Result"
  shows
  "(Erre r = Some e \<longrightarrow>
      (\<exists>v. expectErr conv moved r msg = Inr (v, r\<lparr>Erre := Some (moved e)\<rparr>))
      \<and> isErr (r\<lparr>Erre := Some (moved e)\<rparr>))
   \<and> (Erre s = Some x \<longrightarrow> expectErr id moved' s msg = Inr (x, s\<lparr>Erre := Some (moved' x)\<rparr>))
   \<and> (Erre s = Some x \<longrightarrow> expectErr id id s msg = Inr (x, s))
   \<and> (Erre r = None \<longrightarrow> expectErr conv moved r msg = Inl (Exit msg))"
  by (simp add: expectErr_def isErr_def)

theorem expectErr_behaviour_witness:
  "expectErr id id \<lparr>Oke = None :: 32 word option, Erre = Some (3 :: 32 word)\<rparr> ''not printed''
     = Inr (3, \<lparr>Oke = None, Erre = Some 3\<rparr>)
   \<and> expectErr id id \<lparr>Oke = Some (3 :: 32 word), Erre = None :: 32 word option\<rparr> ''no error held''
     = Inl (Exit ''no error held'')"
  using expectErr_behaviour
      [where s = "\<lparr>Oke = None :: 32 word option, Erre = Some (3 :: 32 word)\<rparr>" and x = 3
         and msg = "''not printed''"
         and r = "\<lparr>Oke = None :: 32 word option, Erre = Some (3 :: 32 word)\<rparr>"]
    expectErr_behaviour
      [where r = "\<lparr>Oke = Some (3 :: 32 word), Erre = None :: 32 word option\<rparr>"
         and msg = "''no error held''" and conv = id and moved = id
         and s = "\<lparr>Oke = None :: 32 word option, Erre = Some (3 :: 32 word)\<rparr>"]
  by simp

text \<open>
  C6. On a Result that holds a value \<open>v\<close>, \<open>value\<close> returns \<open>v\<close> and leaves \<open>Oke\<close> empty; a
  second \<open>value\<close> on that instance logs the diagnostic and exits: it returns nothing.
\<close>

theorem value_twice_exits:
  "Oke r = Some v \<Longrightarrow>
     value_res r = Inr (v, r\<lparr>Oke := None\<rparr>)
     \<and> value_res (r\<lparr>Oke := None\<rparr>) =
         Inl (Exit ''Trying to get the value of a result which doesn't have a value'')"
  by (simp add: value_res_def)

theorem value_twice_exits_witness:
  "value_res \<lparr>Oke = Some (5 :: 32 word), Erre = None :: string option\<rparr>
     = Inr (5, \<lparr>Oke = None, Erre = None\<rparr>)
   \<and> value_res \<lparr>Oke = None :: 32 word option, Erre = None :: string option\<rparr> =
         Inl (Exit ''Trying to get the value of a result which doesn't have a value'')"
  using value_twice_exits [of "\<lparr>Oke = Some (5 :: 32 word), Erre = None :: string option\<rparr>" 5]
  by simp

text \<open>
  C10. On a Result that holds an error \<open>e\<close>, \<open>valueOr\<close> returns the default (it has no
  exit) and the instance as it was: \<open>Erre\<close> still holds \<open>e\<close> and \<open>isErr\<close> is still true.
\<close>

theorem valueOr_failure_frame:
  "Oke r = None \<Longrightarrow> Erre r = Some e \<Longrightarrow>
     valueOr r Default = (Default, r) \<and> Erre (snd (valueOr r Default)) = Some e
     \<and> isErr (snd (valueOr r Default))"
  by (simp add: valueOr_def isErr_def)

theorem valueOr_failure_frame_witness:
  "valueOr \<lparr>Oke = None, Erre = Some ''error''\<rparr> (10 :: 32 word)
     = (10, \<lparr>Oke = None, Erre = Some ''error''\<rparr>)
   \<and> isErr (snd (valueOr \<lparr>Oke = None, Erre = Some ''error''\<rparr> (10 :: 32 word)))"
  using valueOr_failure_frame
      [of "\<lparr>Oke = None :: 32 word option, Erre = Some ''error''\<rparr>" "''error''" 10]
  by (simp add: isErr_def)

section \<open>Transformation\<close>

text \<open>
  C7. On a Result that holds the error \<open>e\<close>, \<open>map\<close> returns a Result that holds \<open>e\<close> and
  no value, whatever the callable \<open>F\<close> is, and hands back the outside state \<open>w\<close> as it got
  it: \<open>F\<close>, which could change that state or exit, was not called.
\<close>

theorem map_failure_identity:
  "Oke r = None \<Longrightarrow> Erre r = Some e \<Longrightarrow>
     map_res r F w = (Inr \<lparr>Oke = None, Erre = Some e\<rparr>, w)"
  by (simp add: map_res_def Result_ctor_def)

theorem map_failure_identity_witness:
  "map_res \<lparr>Oke = None, Erre = Some ''boom''\<rparr> (logged id (\<lambda>x :: 32 word. x * 2)) []
     = (Inr \<lparr>Oke = None, Erre = Some ''boom''\<rparr>, [])"
  using map_failure_identity
    [of "\<lparr>Oke = None, Erre = Some ''boom''\<rparr>" "''boom''" "logged id (\<lambda>x :: 32 word. x * 2)" "[]"]
  by simp

text \<open>
  C8. With both callables logging their invocations, \<open>mapOrElse\<close> on a Result that holds
  a value \<open>v\<close> (and no error) returns \<open>f v\<close> and adds one entry to the log, the call of \<open>f\<close>
  with \<open>v\<close>; on a Result that holds an error \<open>e\<close> (and no value) it returns \<open>df e\<close> and adds
  one entry, the call of \<open>df\<close> with \<open>e\<close>. Which of the two runs is decided by \<open>Oke\<close> being
  engaged, that is by \<open>isOk\<close>.
\<close>

theorem mapOrElse_exactly_one:
  "(Oke r = Some v \<and> Erre r = None \<longrightarrow>
      mapOrElse r (logged Inl df) (logged Inr f) log = (Inr (f v), log @ [Inr v]))
   \<and> (Oke r = None \<and> Erre r = Some e \<longrightarrow>
      mapOrElse r (logged Inl df) (logged Inr f) log = (Inr (df e), log @ [Inl e]))"
  by (simp add: mapOrElse_def logged_def)

theorem mapOrElse_exactly_one_witness:
  "mapOrElse \<lparr>Oke = Some (5 :: 32 word), Erre = None\<rparr>
       (logged Inl (\<lambda>s. if s = ''error'' then 1 else 2)) (logged Inr (\<lambda>x. x * 3)) []
     = (Inr (15 :: 32 word), [Inr 5])
   \<and> mapOrElse \<lparr>Oke = None, Erre = Some ''error''\<rparr>
       (logged Inl (\<lambda>s. if s = ''error'' then 1 else 2)) (logged Inr (\<lambda>x :: 32 word. x * 3)) []
     = (Inr (1 :: 32 word), [Inl ''error''])"
  using mapOrElse_exactly_one
      [where r = "\<lparr>Oke = Some (5 :: 32 word), Erre = None :: string option\<rparr>" and v = 5
         and df = "\<lambda>s. if s = ''error'' then (1 :: 32 word) else 2" and f = "\<lambda>x. x * 3"
         and log = "[]"]
    mapOrElse_exactly_one
      [where r = "\<lparr>Oke = None :: 32 word option, Erre = Some ''error''\<rparr>" and e = "''error''"
         and df = "\<lambda>s. if s = ''error'' then (1 :: 32 word) else 2" and f = "\<lambda>x. x * 3"
         and log = "[]"]
  by simp

section \<open>Comparison\<close>

text \<open>A call of \<^verbatim>\<open>operator!=\<close> that returned would rest on an earlier call that returned.\<close>

lemma operator_ne_Some_False:
  assumes ret: "operator_ne a b = Some y"
  shows False
proof (rule operator_ne.raw_induct
    [where P = "\<lambda>_ _ _. False" and self = a and rhs = b and y = y])
  fix ne :: "('a, 'b) Result \<Rightarrow> ('a, 'b) Result \<Rightarrow> bool option" and self rhs z
  assume inner: "\<And>s t x. ne s t = Some x \<Longrightarrow> False" and call: "ne rhs self = Some z"
  from inner [OF call] show False .
next
  show "operator_ne a b = Some y" by (rule ret)
qed

lemma operator_ne_None: "operator_ne a b = None"
proof (cases "operator_ne a b")
  case None
  then show ?thesis .
next
  case (Some y)
  then show ?thesis
    by (rule operator_ne_Some_False [THEN FalseE])
qed

text \<open>
  C9. \<^verbatim>\<open>ok<int, int>(1) != ok<int, int>(2)\<close> does not return: the member calls itself with
  the operands exchanged, without end. The two Results are not equal under
  \<^verbatim>\<open>operator==\<close>, so the negation of the equality would be true.
\<close>

theorem operator_ne_never_returns:
  "operator_ne \<lparr>Oke = Some (1 :: 32 word), Erre = None :: 32 word option\<rparr>
               \<lparr>Oke = Some 2, Erre = None\<rparr> = None
   \<and> \<not> operator_eq \<lparr>Oke = Some (1 :: 32 word), Erre = None :: 32 word option\<rparr>
                     \<lparr>Oke = Some 2, Erre = None\<rparr>"
  by (simp add: operator_ne_None operator_eq_def)

end
